theory Spec2Isabelle
  imports Main "HOL-Library.Word"
begin

section \<open>JavaScript strings\<close>

text \<open>
  A JavaScript string is a sequence of 16-bit code units. The JSON text of a reply can
  escape any code unit (\<^verbatim>\<open>"\ud800"\<close>), so a parsed string need not be well-formed
  UTF-16: it can hold a surrogate without its partner. The literals of the source are
  plain text, one code unit for each character.
\<close>

type_synonym jsstring = "16 word list"

definition utf16 :: "string \<Rightarrow> jsstring" where
  "utf16 s = map of_char s"

definition is_high_surrogate :: "16 word \<Rightarrow> bool" where
  "is_high_surrogate u = (0xD800 \<le> u \<and> u \<le> 0xDBFF)"

definition is_low_surrogate :: "16 word \<Rightarrow> bool" where
  "is_low_surrogate u = (0xDC00 \<le> u \<and> u \<le> 0xDFFF)"

text \<open>
  Well-formed: every high surrogate is followed at once by a low surrogate, and no low
  surrogate stands elsewhere. \<^verbatim>\<open>encodeURIComponent\<close> throws a URIError on every other
  string.
\<close>

fun well_formed :: "jsstring \<Rightarrow> bool" where
  "well_formed [] = True"
| "well_formed [u] = (\<not> is_high_surrogate u \<and> \<not> is_low_surrogate u)"
| "well_formed (u # v # us) =
     (if is_high_surrogate u then is_low_surrogate v \<and> well_formed us
      else \<not> is_low_surrogate u \<and> well_formed (v # us))"

section \<open>JavaScript values handled by the session guard\<close>

text \<open>
  The guard is the \<^verbatim>\<open>middleware\<close> function of the Next.js frontend. Its local
  variables are dynamically typed: a cookie value is a string or \<^verbatim>\<open>undefined\<close>, and the
  parsed reply of the renewal endpoint (\<^verbatim>\<open>await response.json()\<close>) is any JSON value.
  Objects keep their members in the order of the JSON text. The guard never computes
  with a number; it can only test one for being zero (through \<^verbatim>\<open>||\<close>).
\<close>

datatype jsval =
    JUndefined
  | JNull
  | JBool bool
  | JNum int
  | JStr jsstring
  | JArr "jsval list"
  | JObj "(jsstring \<times> jsval) list"

text \<open>Truthiness, as tested by \<^verbatim>\<open>!x\<close>, \<^verbatim>\<open>if (x)\<close> and \<^verbatim>\<open>x || y\<close>.\<close>

fun truthy :: "jsval \<Rightarrow> bool" where
  "truthy JUndefined = False"
| "truthy JNull = False"
| "truthy (JBool b) = b"
| "truthy (JNum n) = (n \<noteq> 0)"
| "truthy (JStr s) = (s \<noteq> [])"
| "truthy (JArr xs) = True"
| "truthy (JObj kvs) = True"

definition js_or :: "jsval \<Rightarrow> jsval \<Rightarrow> jsval" where
  "js_or a b = (if truthy a then a else b)"

text \<open>
  What the \<^verbatim>\<open>try\<close> block can throw, and so what \<^verbatim>\<open>catch (error)\<close> receives: the
  rejection of \<^verbatim>\<open>fetch\<close>, the rejection of \<^verbatim>\<open>response.json()\<close>, a TypeError (of a
  property read, or of a value that has no string form), a URIError (of
  \<^verbatim>\<open>encodeURIComponent\<close>), and the guard's own \<^verbatim>\<open>new Error(m)\<close>, kept with the value
  \<open>m\<close> handed to the constructor.
\<close>

datatype thrown =
    FetchRejected
  | JsonRejected
  | TypeError
  | URIError
  | Error jsval

text \<open>
  The property read \<^verbatim>\<open>data.k\<close> for the two keys the guard reads (\<^verbatim>\<open>detail\<close> and
  \<^verbatim>\<open>access_token\<close>, neither of which any prototype defines): reading a property of
  \<^verbatim>\<open>null\<close> or \<^verbatim>\<open>undefined\<close> throws a TypeError, an object yields its member (the last
  one, when the JSON text repeats a key) or \<^verbatim>\<open>undefined\<close>, and every other value yields
  \<^verbatim>\<open>undefined\<close>.
\<close>

fun get_prop :: "jsval \<Rightarrow> jsstring \<Rightarrow> thrown + jsval" where
  "get_prop JUndefined k = Inl TypeError"
| "get_prop JNull k = Inl TypeError"
| "get_prop (JObj kvs) k =
     Inr (case map_of (rev kvs) k of None \<Rightarrow> JUndefined | Some v \<Rightarrow> v)"
| "get_prop (JBool b) k = Inr JUndefined"
| "get_prop (JNum n) k = Inr JUndefined"
| "get_prop (JStr s) k = Inr JUndefined"
| "get_prop (JArr xs) k = Inr JUndefined"

text \<open>
  The conversion of a value to a string, as \<^verbatim>\<open>new Error(m)\<close> and
  \<^verbatim>\<open>encodeURIComponent(v)\<close> apply it. On a parsed JSON value it can fail in one way:
  an object with a member named \<^verbatim>\<open>toString\<close> hides the inherited method behind a
  value that cannot be called, and the conversion throws a TypeError. An array converts
  its elements in turn (\<^verbatim>\<open>join\<close>) and throws where one of them does; every other
  object converts to the text \<^verbatim>\<open>[object Object]\<close>.
\<close>

fun to_string_throws :: "jsval \<Rightarrow> bool" where
  "to_string_throws JUndefined = False"
| "to_string_throws JNull = False"
| "to_string_throws (JBool b) = False"
| "to_string_throws (JNum n) = False"
| "to_string_throws (JStr s) = False"
| "to_string_throws (JArr xs) = (\<exists>x \<in> set xs. to_string_throws x)"
| "to_string_throws (JObj kvs) = (utf16 ''toString'' \<in> fst ` set kvs)"

text \<open>
  Whether the string a value converts to is ill-formed. The text of a number, of a
  boolean and of an object is plain; a string is its own text; the text of an array is
  the texts of its elements with commas between them (nothing for \<^verbatim>\<open>null\<close>), so it
  holds a lone surrogate exactly when the text of an element does.
\<close>

fun to_string_ill_formed :: "jsval \<Rightarrow> bool" where
  "to_string_ill_formed JUndefined = False"
| "to_string_ill_formed JNull = False"
| "to_string_ill_formed (JBool b) = False"
| "to_string_ill_formed (JNum n) = False"
| "to_string_ill_formed (JStr s) = (\<not> well_formed s)"
| "to_string_ill_formed (JArr xs) = (\<exists>x \<in> set xs. to_string_ill_formed x)"
| "to_string_ill_formed (JObj kvs) = False"

text \<open>
  \<^verbatim>\<open>throw new Error(m)\<close>: the constructor converts the message to a string first, so
  what is thrown is the TypeError of that conversion, or else the new error.
\<close>

definition throw_new_Error :: "jsval \<Rightarrow> thrown" where
  "throw_new_Error m = (if to_string_throws m then TypeError else Error m)"

section \<open>Requests, URLs and responses\<close>

record URL =
  origin :: string
  pathname :: string
  searchParams :: "(string \<times> string) list"

text \<open>
  A request as the guard reads it: the cookie jar, \<^verbatim>\<open>request.nextUrl\<close> (from which it
  takes \<^verbatim>\<open>pathname\<close>) and \<^verbatim>\<open>request.url\<close> (the base of the login URL).
\<close>

record request =
  cookies :: "string \<rightharpoonup> jsstring"
  nextUrl :: URL
  url :: URL

text \<open>\<^verbatim>\<open>request.cookies.get(name)?.value\<close>\<close>

definition cookies_get :: "request \<Rightarrow> string \<Rightarrow> jsval" where
  "cookies_get req name = (case cookies req name of None \<Rightarrow> JUndefined | Some v \<Rightarrow> JStr v)"

text \<open>
  \<^verbatim>\<open>new URL(p, base)\<close> for an absolute path \<^verbatim>\<open>p\<close>: the origin of the base, the path
  \<^verbatim>\<open>p\<close>, and no query.
\<close>

definition new_URL :: "string \<Rightarrow> URL \<Rightarrow> URL" where
  "new_URL p base = \<lparr>origin = origin base, pathname = p, searchParams = []\<rparr>"

text \<open>
  \<^verbatim>\<open>searchParams.set(k, v)\<close>: the first pair named \<^verbatim>\<open>k\<close> takes the value and the other
  pairs of that name go; with no such pair, the pair is appended.
\<close>

fun searchParams_set :: "string \<Rightarrow> string \<Rightarrow> (string \<times> string) list \<Rightarrow> (string \<times> string) list" where
  "searchParams_set k v [] = [(k, v)]"
| "searchParams_set k v (p # ps) =
     (if fst p = k then (k, v) # filter (\<lambda>q. fst q \<noteq> k) ps
      else p # searchParams_set k v ps)"

datatype same_site = Strict | Lax | NoSite

record cookie_options =
  path :: string
  secure :: bool
  sameSite :: same_site

text \<open>
  The operations of a response's cookie jar. A response records the operations made on
  it, in order; the guard's code only ever calls \<^verbatim>\<open>set\<close>.
\<close>

datatype cookie_op =
    CookieSet string jsval cookie_options
  | CookieDelete string


datatype response_kind = Next | Redirect URL

record next_response =
  kind :: response_kind
  cookie_ops :: "cookie_op list"

definition NextResponse_next :: next_response where
  "NextResponse_next = \<lparr>kind = Next, cookie_ops = []\<rparr>"

definition NextResponse_redirect :: "URL \<Rightarrow> next_response" where
  "NextResponse_redirect u = \<lparr>kind = Redirect u, cookie_ops = []\<rparr>"

text \<open>
  \<^verbatim>\<open>cookies.set(name, value, options)\<close> on a response writes the
  \<^verbatim>\<open>Set-Cookie\<close> header at once, and for that the framework's cookie jar computes
  \<^verbatim>\<open>encodeURIComponent(value ?? "")\<close>. So the call throws where that expression does:
  a TypeError when the value has no string form, a URIError when its string is
  ill-formed; \<^verbatim>\<open>undefined\<close> and \<^verbatim>\<open>null\<close> stand for the empty string.
\<close>

definition encode_value_error :: "jsval \<Rightarrow> thrown option" where
  "encode_value_error v =
     (if v = JUndefined \<or> v = JNull then None
      else if to_string_throws v then Some TypeError
      else if to_string_ill_formed v then Some URIError
      else None)"

definition cookies_set ::
  "string \<Rightarrow> jsval \<Rightarrow> cookie_options \<Rightarrow> next_response \<Rightarrow> thrown + next_response" where
  "cookies_set name v opts r =
     (case encode_value_error v of
        Some e \<Rightarrow> Inl e
      | None \<Rightarrow> Inr (r\<lparr>cookie_ops := cookie_ops r @ [CookieSet name v opts]\<rparr>))"

section \<open>The renewal endpoint\<close>

text \<open>
  A call of \<^verbatim>\<open>fetch\<close>. The body is the value handed to \<^verbatim>\<open>JSON.stringify\<close>.
\<close>

record fetch_call =
  fetch_url :: string
  fetch_method :: string
  fetch_headers :: "(string \<times> string) list"
  fetch_body :: jsval

text \<open>
  What a call comes to: \<^verbatim>\<open>fetch\<close> rejects, or it resolves to a response with a status
  and a body, which \<^verbatim>\<open>response.json()\<close> parses (\<open>None\<close>: the body is not JSON, and
  \<^verbatim>\<open>json()\<close> rejects).
\<close>

datatype fetch_outcome = FetchThrows | Reply nat "jsval option"

text \<open>\<^verbatim>\<open>response.ok\<close>: the status is in the range 200 to 299.\<close>

definition response_ok :: "nat \<Rightarrow> bool" where
  "response_ok st = (200 \<le> st \<and> st \<le> 299)"

definition response_json :: "jsval option \<Rightarrow> thrown + jsval" where
  "response_json b = (case b of None \<Rightarrow> Inl JsonRejected | Some data \<Rightarrow> Inr data)"

text \<open>
  The template \<^verbatim>\<open>`${process.env.NEXT_PUBLIC_API_URL}/auth/refresh`\<close>; an unset variable
  prints as \<^verbatim>\<open>undefined\<close>.
\<close>

definition refresh_url :: "string option \<Rightarrow> string" where
  "refresh_url api_url =
     (case api_url of None \<Rightarrow> ''undefined'' | Some s \<Rightarrow> s) @ ''/auth/refresh''"

definition refresh_call :: "string option \<Rightarrow> jsval \<Rightarrow> fetch_call" where
  "refresh_call api_url refreshToken =
     \<lparr>fetch_url = refresh_url api_url,
      fetch_method = ''POST'',
      fetch_headers = [(''Content-Type'', ''application/json'')],
      fetch_body = JObj [(utf16 ''refresh_token'', refreshToken)]\<rparr>"

section \<open>The guard\<close>

text \<open>
  The \<^verbatim>\<open>try\<close> block from the reply on: parse the body, throw on a status that is not
  ok, else read the new token and set it on a pass-through response. Each step can throw,
  the last one (\<^verbatim>\<open>cookies.set\<close>) too.
\<close>

definition refresh_try :: "fetch_outcome \<Rightarrow> thrown + next_response" where
  "refresh_try out =
     (case out of
        FetchThrows \<Rightarrow> Inl FetchRejected
      | Reply st b \<Rightarrow>
          (case response_json b of
             Inl e \<Rightarrow> Inl e
           | Inr data \<Rightarrow>
               if \<not> response_ok st then
                 (case get_prop data (utf16 ''detail'') of
                    Inl e \<Rightarrow> Inl e
                  | Inr d \<Rightarrow> Inl (throw_new_Error (js_or d (JStr (utf16 ''Failed to refresh token'')))))
               else
                 (case get_prop data (utf16 ''access_token'') of
                    Inl e \<Rightarrow> Inl e
                  | Inr newAccessToken \<Rightarrow>
                      cookies_set ''access_token'' newAccessToken
                        \<lparr>path = ''/'', secure = True, sameSite = Strict\<rparr>
                        NextResponse_next)))"

text \<open>The login URL built in both redirect branches.\<close>

definition login_url :: "request \<Rightarrow> string \<Rightarrow> URL" where
  "login_url req pathname' =
     (let loginUrl = new_URL ''/auth'' (url req)
      in loginUrl\<lparr>searchParams := searchParams_set ''next'' pathname' (searchParams loginUrl)\<rparr>)"

text \<open>
  One run of the guard: the response it returns, its exchanges with the renewal endpoint
  (each call with what it came to) and what it printed with \<^verbatim>\<open>console.error\<close>.
\<close>

record run =
  response :: next_response
  exchanges :: "(fetch_call \<times> fetch_outcome) list"
  logged :: "thrown list"

text \<open>
  \<^verbatim>\<open>fetch\<close> belongs to the outside world, which has a state of its own (type \<open>'w\<close>):
  a call takes the world to a new state. The guard has no variable outside its body, so
  the world is the only state a run passes on.
\<close>

definition middleware ::
  "string option \<Rightarrow> (fetch_call \<Rightarrow> 'w \<Rightarrow> fetch_outcome \<times> 'w) \<Rightarrow> request \<Rightarrow> 'w \<Rightarrow> run \<times> 'w" where
  "middleware api_url fetch req w =
     (let pathname' = pathname (nextUrl req);
          accessToken = cookies_get req ''access_token'';
          refreshToken = cookies_get req ''refresh_token''
      in if \<not> truthy accessToken then
           (if truthy refreshToken then
              (let call = refresh_call api_url refreshToken;
                   (out, w') = fetch call w
               in case refresh_try out of
                    Inr responseWithToken \<Rightarrow>
                      (\<lparr>response = responseWithToken, exchanges = [(call, out)], logged = []\<rparr>, w')
                  | Inl error \<Rightarrow>
                      (\<lparr>response = NextResponse_redirect (login_url req pathname'),
                        exchanges = [(call, out)], logged = [error]\<rparr>, w'))
            else
              (\<lparr>response = NextResponse_redirect (login_url req pathname'),
                exchanges = [], logged = []\<rparr>, w))
         else
           (\<lparr>response = NextResponse_next, exchanges = [], logged = []\<rparr>, w))"

text \<open>
  An endpoint that answers every call alike and counts the calls it has served, for
  running the guard on concrete requests.
\<close>

definition steady_endpoint :: "fetch_outcome \<Rightarrow> fetch_call \<Rightarrow> nat \<Rightarrow> fetch_outcome \<times> nat" where
  "steady_endpoint out call n = (out, Suc n)"

text \<open>A protected page of the site, for concrete requests.\<close>

definition account_url :: URL where
  "account_url = \<lparr>origin = ''https://blog.example'', pathname = ''/account'', searchParams = []\<rparr>"



section \<open>Source literals as JavaScript strings\<close>

lemma unat_of_char: "unat (of_char c :: 16 word) = of_char c"
proof -
  have "(of_char c :: nat) < 256"
    using of_char_mod_256 [of c, where ?'a = nat]
    by (metis mod_less_divisor zero_less_numeral)
  then have lt: "(of_char c :: nat) < 65536" by linarith
  have "unat (of_nat (of_char c) :: 16 word) = of_char c mod 2 ^ LENGTH(16)"
    by (rule unat_of_nat)
  also have "\<dots> = of_char c"
    using lt by (simp del: of_char_mod_256)
  finally have "unat (of_nat (of_char c) :: 16 word) = of_char c" .
  then show ?thesis by (simp add: of_nat_of_char)
qed

lemma of_char_word_inject: "(of_char c :: 16 word) = of_char d \<longleftrightarrow> c = d"
proof
  assume "(of_char c :: 16 word) = of_char d"
  then have "unat (of_char c :: 16 word) = unat (of_char d :: 16 word)" by simp
  then show "c = d" by (simp add: unat_of_char)
qed simp

lemma utf16_inject [simp]: "utf16 s = utf16 t \<longleftrightarrow> s = t"
  unfolding utf16_def
  by (rule inj_map_eq_map) (simp add: inj_on_def of_char_word_inject)

lemma utf16_eq_Nil [simp]: "utf16 s = [] \<longleftrightarrow> s = []"
  by (simp add: utf16_def)

lemma of_char_not_surrogate:
  "\<not> is_high_surrogate (of_char c)" "\<not> is_low_surrogate (of_char c)"
proof -
  have "(of_char c :: nat) < 256"
    using of_char_mod_256 [of c, where ?'a = nat]
    by (metis mod_less_divisor zero_less_numeral)
  then have "unat (of_char c :: 16 word) < 256" by (simp add: unat_of_char)
  then show "\<not> is_high_surrogate (of_char c)" "\<not> is_low_surrogate (of_char c)"
    by (simp_all add: is_high_surrogate_def is_low_surrogate_def word_le_nat_alt)
qed

lemma well_formed_all:
  "\<forall>u \<in> set us. \<not> is_high_surrogate u \<and> \<not> is_low_surrogate u \<Longrightarrow> well_formed us"
  by (induction us rule: well_formed.induct) simp_all

lemma well_formed_utf16 [simp]: "well_formed (utf16 s)"
  by (rule well_formed_all) (auto simp: utf16_def of_char_not_surrogate)

section \<open>The branches of the guard\<close>

lemma login_url_eq:
  "login_url req p = \<lparr>origin = origin (url req), pathname = ''/auth'', searchParams = [(''next'', p)]\<rparr>"
  by (simp add: login_url_def new_URL_def Let_def)

lemma middleware_pass:
  assumes "truthy (cookies_get req ''access_token'')"
  shows "middleware api_url fetch req w =
           (\<lparr>response = NextResponse_next, exchanges = [], logged = []\<rparr>, w)"
  using assms by (simp add: middleware_def)

lemma middleware_no_tokens:
  assumes "\<not> truthy (cookies_get req ''access_token'')"
      and "\<not> truthy (cookies_get req ''refresh_token'')"
  shows "middleware api_url fetch req w =
           (\<lparr>response = NextResponse_redirect (login_url req (pathname (nextUrl req))),
             exchanges = [], logged = []\<rparr>, w)"
  using assms by (simp add: middleware_def)

lemma middleware_renew:
  assumes "\<not> truthy (cookies_get req ''access_token'')"
      and "truthy (cookies_get req ''refresh_token'')"
  shows "middleware api_url fetch req w =
           (\<lparr>response =
               (case refresh_try (fst (fetch (refresh_call api_url (cookies_get req ''refresh_token'')) w)) of
                  Inr r \<Rightarrow> r
                | Inl e \<Rightarrow> NextResponse_redirect (login_url req (pathname (nextUrl req)))),
             exchanges =
               [(refresh_call api_url (cookies_get req ''refresh_token''),
                 fst (fetch (refresh_call api_url (cookies_get req ''refresh_token'')) w))],
             logged =
               (case refresh_try (fst (fetch (refresh_call api_url (cookies_get req ''refresh_token'')) w)) of
                  Inr r \<Rightarrow> []
                | Inl e \<Rightarrow> [e])\<rparr>,
            snd (fetch (refresh_call api_url (cookies_get req ''refresh_token'')) w))"
  using assms by (simp add: middleware_def Let_def split: sum.splits prod.splits)



text \<open>
  Three replies run through the \<^verbatim>\<open>try\<close> block: a rejection with a readable
  \<^verbatim>\<open>detail\<close>, a rejection whose \<^verbatim>\<open>detail\<close> has no string form, and a success whose
  token has no string form.
\<close>

lemma refresh_try_detail:
  "refresh_try (Reply 401 (Some (JObj [(utf16 ''detail'', JStr (utf16 ''Invalid token''))]))) =
     Inl (Error (JStr (utf16 ''Invalid token'')))"
  by (simp add: refresh_try_def response_json_def response_ok_def js_or_def throw_new_Error_def)

lemma refresh_try_unconvertible_detail:
  "refresh_try (Reply 401 (Some (JObj [(utf16 ''detail'', JObj [(utf16 ''toString'', JNum 1)])]))) =
     Inl TypeError"
  by (simp add: refresh_try_def response_json_def response_ok_def js_or_def throw_new_Error_def)

lemma refresh_try_unconvertible_token:
  "refresh_try (Reply 200 (Some (JObj [(utf16 ''access_token'', JObj [(utf16 ''toString'', JNum 1)])]))) =
     Inl TypeError"
  by (simp add: refresh_try_def response_json_def response_ok_def cookies_set_def
      encode_value_error_def)



lemma response_determined:
  assumes "cookies ra ''access_token'' = cookies rb ''access_token''"
      and "cookies ra ''refresh_token'' = cookies rb ''refresh_token''"
      and "pathname (nextUrl ra) = pathname (nextUrl rb)"
      and "origin (url ra) = origin (url rb)"
      and "fst (fa (refresh_call ua (cookies_get ra ''refresh_token'')) wa) =
           fst (fb (refresh_call ub (cookies_get rb ''refresh_token'')) wb)"
  shows "response (fst (middleware ua fa ra wa)) = response (fst (middleware ub fb rb wb))"
proof -
  from assms(1) have A: "cookies_get ra ''access_token'' = cookies_get rb ''access_token''"
    by (simp add: cookies_get_def)
  from assms(2) have R: "cookies_get ra ''refresh_token'' = cookies_get rb ''refresh_token''"
    by (simp add: cookies_get_def)
  show ?thesis
  proof (cases "truthy (cookies_get ra ''access_token'')")
    case True
    with A show ?thesis by (simp add: middleware_pass)
  next
    case a: False
    show ?thesis
    proof (cases "truthy (cookies_get ra ''refresh_token'')")
      case False
      with a A R assms(3,4) show ?thesis by (simp add: middleware_no_tokens login_url_eq)
    next
      case True
      with a A R have "\<not> truthy (cookies_get rb ''access_token'')" "truthy (cookies_get rb ''refresh_token'')"
        by simp_all
      with a True assms(3,4,5) show ?thesis
        by (simp add: middleware_renew login_url_eq split: sum.splits)
    qed
  qed
qed

section \<open>Successful renewal\<close>




section \<open>Failed renewal\<close>



section \<open>No credentials\<close>

text \<open>
  C3. For every intercepted request with both the \<^verbatim>\<open>access_token\<close> and the
  \<^verbatim>\<open>refresh_token\<close> cookie absent, the guard returns a redirect to the login path
  whose \<^verbatim>\<open>next\<close> parameter is the requested path, and it makes no call to the renewal
  endpoint: the run has no exchange and leaves the world as it was.
\<close>

theorem no_credentials_redirect:
  assumes "cookies req ''access_token'' = None"
      and "cookies req ''refresh_token'' = None"
  shows "middleware api_url fetch req w =
           (\<lparr>response =
               \<lparr>kind = Redirect \<lparr>origin = origin (url req), pathname = ''/auth'',
                                 searchParams = [(''next'', pathname (nextUrl req))]\<rparr>,
                cookie_ops = []\<rparr>,
             exchanges = [], logged = []\<rparr>, w)"
  using assms
  by (simp add: middleware_no_tokens cookies_get_def login_url_eq NextResponse_redirect_def)

theorem no_credentials_redirect_witness:
  "cookies \<lparr>cookies = Map.empty, nextUrl = account_url, url = account_url\<rparr> ''access_token'' = None
   \<and> cookies \<lparr>cookies = Map.empty, nextUrl = account_url, url = account_url\<rparr> ''refresh_token'' = None
   \<and> middleware (Some ''https://api.example'') (steady_endpoint (Reply 200 (Some (JObj [(utf16 ''access_token'', JStr (utf16 ''t2''))]))))
        \<lparr>cookies = Map.empty, nextUrl = account_url, url = account_url\<rparr> 0 =
       (\<lparr>response =
           \<lparr>kind = Redirect \<lparr>origin = ''https://blog.example'', pathname = ''/auth'',
                             searchParams = [(''next'', ''/account'')]\<rparr>,
            cookie_ops = []\<rparr>,
         exchanges = [], logged = []\<rparr>, 0)"
proof -
  let ?req = "\<lparr>cookies = Map.empty, nextUrl = account_url, url = account_url\<rparr>"
  have h1: "cookies ?req ''access_token'' = None" by simp
  have h2: "cookies ?req ''refresh_token'' = None" by simp
  from no_credentials_redirect [OF h1 h2] h1 h2 show ?thesis
    by (simp add: account_url_def)
qed

section \<open>A token that is present\<close>

text \<open>
  C4, as stated, promises a pass-through for every request whose \<^verbatim>\<open>access_token\<close>
  cookie is present. A cookie can be present and empty (the header \<^verbatim>\<open>Cookie: access_token=\<close>),
  and \<^verbatim>\<open>!accessToken\<close> holds of the empty string: the request below has the cookie and
  is redirected to the login page.
\<close>

theorem empty_access_token_redirected:
  "cookies \<lparr>cookies = [''access_token'' \<mapsto> []], nextUrl = account_url, url = account_url\<rparr>
       ''access_token'' = Some []
   \<and> response (fst (middleware None (steady_endpoint FetchThrows)
        \<lparr>cookies = [''access_token'' \<mapsto> []], nextUrl = account_url, url = account_url\<rparr> 0)) =
       \<lparr>kind = Redirect \<lparr>origin = ''https://blog.example'', pathname = ''/auth'',
                         searchParams = [(''next'', ''/account'')]\<rparr>,
        cookie_ops = []\<rparr>"
  by (simp add: middleware_def cookies_get_def login_url_eq NextResponse_redirect_def
      account_url_def)

text \<open>
  C4, amended. For every intercepted request whose \<^verbatim>\<open>access_token\<close> cookie is present
  and not empty, the guard returns a pass-through response with no cookie operation and
  makes no call to the renewal endpoint, whatever the \<^verbatim>\<open>refresh_token\<close> cookie is and
  whatever the token's value: the value is never looked into, and no expiry is checked.
\<close>

theorem present_token_passes:
  assumes "cookies req ''access_token'' = Some a"
      and "a \<noteq> []"
  shows "middleware api_url fetch req w =
           (\<lparr>response = \<lparr>kind = Next, cookie_ops = []\<rparr>, exchanges = [], logged = []\<rparr>, w)"
  using assms
  by (simp add: middleware_pass cookies_get_def NextResponse_next_def)

theorem present_token_passes_witness:
  "cookies \<lparr>cookies = [''access_token'' \<mapsto> utf16 ''expired'', ''refresh_token'' \<mapsto> utf16 ''r1''],
             nextUrl = account_url, url = account_url\<rparr> ''access_token'' = Some (utf16 ''expired'')
   \<and> utf16 ''expired'' \<noteq> []
   \<and> middleware None (steady_endpoint FetchThrows)
        \<lparr>cookies = [''access_token'' \<mapsto> utf16 ''expired'', ''refresh_token'' \<mapsto> utf16 ''r1''],
          nextUrl = account_url, url = account_url\<rparr> 0 =
       (\<lparr>response = \<lparr>kind = Next, cookie_ops = []\<rparr>, exchanges = [], logged = []\<rparr>, 0)"
proof -
  let ?req = "\<lparr>cookies = [''access_token'' \<mapsto> utf16 ''expired'', ''refresh_token'' \<mapsto> utf16 ''r1''],
             nextUrl = account_url, url = account_url\<rparr>"
  have h1: "cookies ?req ''access_token'' = Some (utf16 ''expired'')" by simp
  have h2: "utf16 ''expired'' \<noteq> []" by simp
  from present_token_passes [OF h1 h2] h1 h2 show ?thesis by simp
qed

section \<open>The number of renewal calls\<close>




section \<open>What the guard writes\<close>




section \<open>No state between runs\<close>

text \<open>
  C7, as stated, makes the guard's output a function of the request cookies, the request
  path and the outcome of the renewal call alone. The login URL is built on
  \<^verbatim>\<open>request.url\<close>, so the redirect also depends on the origin of the request: the two
  requests below have the same cookies (none) and the same path, neither run calls the
  endpoint, and the responses differ.
\<close>

theorem origin_changes_redirect:
  "cookies \<lparr>cookies = Map.empty, nextUrl = account_url, url = account_url\<rparr> =
     cookies \<lparr>cookies = Map.empty, nextUrl = account_url\<lparr>origin := ''http://localhost:3000''\<rparr>,
               url = account_url\<lparr>origin := ''http://localhost:3000''\<rparr>\<rparr>
   \<and> pathname (nextUrl \<lparr>cookies = Map.empty, nextUrl = account_url, url = account_url\<rparr>) =
     pathname (nextUrl \<lparr>cookies = Map.empty, nextUrl = account_url\<lparr>origin := ''http://localhost:3000''\<rparr>,
               url = account_url\<lparr>origin := ''http://localhost:3000''\<rparr>\<rparr>)
   \<and> exchanges (fst (middleware None (steady_endpoint FetchThrows)
        \<lparr>cookies = Map.empty, nextUrl = account_url, url = account_url\<rparr> 0)) = []
   \<and> exchanges (fst (middleware None (steady_endpoint FetchThrows)
        \<lparr>cookies = Map.empty, nextUrl = account_url\<lparr>origin := ''http://localhost:3000''\<rparr>,
          url = account_url\<lparr>origin := ''http://localhost:3000''\<rparr>\<rparr> 0)) = []
   \<and> response (fst (middleware None (steady_endpoint FetchThrows)
        \<lparr>cookies = Map.empty, nextUrl = account_url, url = account_url\<rparr> 0)) \<noteq>
     response (fst (middleware None (steady_endpoint FetchThrows)
        \<lparr>cookies = Map.empty, nextUrl = account_url\<lparr>origin := ''http://localhost:3000''\<rparr>,
          url = account_url\<lparr>origin := ''http://localhost:3000''\<rparr>\<rparr> 0))"
  by (simp add: middleware_def cookies_get_def login_url_eq NextResponse_redirect_def
      account_url_def)

text \<open>
  C7, amended. Invoking the guard twice in sequence on the same request, against a
  renewal endpoint that always answers alike (always the same success reply, say),
  yields identical responses, and so the same \<^verbatim>\<open>access_token\<close> cookie value both times,
  whatever the first run did to the world. The guard holds no state across invocations:
  its response is a function only of the two request cookies, the request path, the
  origin of the request URL and the outcome of the renewal call.
\<close>

theorem guard_stateless:
  "((\<forall>call w'. fst (fetch call w') = out) \<longrightarrow>
      response (fst (middleware api_url fetch req (snd (middleware api_url fetch req w)))) =
      response (fst (middleware api_url fetch req w)))
   \<and> (cookies r1 ''access_token'' = cookies r2 ''access_token''
        \<and> cookies r1 ''refresh_token'' = cookies r2 ''refresh_token''
        \<and> pathname (nextUrl r1) = pathname (nextUrl r2)
        \<and> origin (url r1) = origin (url r2)
        \<and> fst (f1 (refresh_call a1 (cookies_get r1 ''refresh_token'')) w1) =
            fst (f2 (refresh_call a2 (cookies_get r2 ''refresh_token'')) w2) \<longrightarrow>
      response (fst (middleware a1 f1 r1 w1)) = response (fst (middleware a2 f2 r2 w2)))"
proof (intro conjI impI)
  assume "\<forall>call w'. fst (fetch call w') = out"
  then have "fst (fetch (refresh_call api_url (cookies_get req ''refresh_token''))
                    (snd (middleware api_url fetch req w))) =
             fst (fetch (refresh_call api_url (cookies_get req ''refresh_token'')) w)"
    by simp
  then show "response (fst (middleware api_url fetch req (snd (middleware api_url fetch req w)))) =
      response (fst (middleware api_url fetch req w))"
    using response_determined [where ra = req and rb = req and fa = fetch and fb = fetch
        and ua = api_url and ub = api_url and wa = "snd (middleware api_url fetch req w)" and wb = w]
    by simp
next
  assume "cookies r1 ''access_token'' = cookies r2 ''access_token''
        \<and> cookies r1 ''refresh_token'' = cookies r2 ''refresh_token''
        \<and> pathname (nextUrl r1) = pathname (nextUrl r2)
        \<and> origin (url r1) = origin (url r2)
        \<and> fst (f1 (refresh_call a1 (cookies_get r1 ''refresh_token'')) w1) =
            fst (f2 (refresh_call a2 (cookies_get r2 ''refresh_token'')) w2)"
  then show "response (fst (middleware a1 f1 r1 w1)) = response (fst (middleware a2 f2 r2 w2))"
    using response_determined [where ra = r1 and rb = r2 and fa = f1 and fb = f2
        and ua = a1 and ub = a2 and wa = w1 and wb = w2]
    by simp
qed

theorem guard_stateless_witness:
  "(\<forall>call w'. fst (steady_endpoint (Reply 200 (Some (JObj [(utf16 ''access_token'', JStr (utf16 ''t2''))]))) call w') =
        Reply 200 (Some (JObj [(utf16 ''access_token'', JStr (utf16 ''t2''))])))
   \<and> snd (middleware None (steady_endpoint (Reply 200 (Some (JObj [(utf16 ''access_token'', JStr (utf16 ''t2''))]))))
        \<lparr>cookies = [''refresh_token'' \<mapsto> utf16 ''r1''], nextUrl = account_url, url = account_url\<rparr> 0) = Suc 0
   \<and> response (fst (middleware None (steady_endpoint (Reply 200 (Some (JObj [(utf16 ''access_token'', JStr (utf16 ''t2''))]))))
        \<lparr>cookies = [''refresh_token'' \<mapsto> utf16 ''r1''], nextUrl = account_url, url = account_url\<rparr> (Suc 0))) =
     response (fst (middleware None (steady_endpoint (Reply 200 (Some (JObj [(utf16 ''access_token'', JStr (utf16 ''t2''))]))))
        \<lparr>cookies = [''refresh_token'' \<mapsto> utf16 ''r1''], nextUrl = account_url, url = account_url\<rparr> 0))
   \<and> cookies \<lparr>cookies = [''refresh_token'' \<mapsto> utf16 ''r1''], nextUrl = account_url, url = account_url\<rparr> ''access_token'' =
     cookies \<lparr>cookies = [''refresh_token'' \<mapsto> utf16 ''r1'', ''theme'' \<mapsto> utf16 ''dark''], nextUrl = account_url,
              url = account_url\<lparr>searchParams := [(''page'', ''2'')]\<rparr>\<rparr> ''access_token''
   \<and> cookies \<lparr>cookies = [''refresh_token'' \<mapsto> utf16 ''r1''], nextUrl = account_url, url = account_url\<rparr> ''refresh_token'' =
     cookies \<lparr>cookies = [''refresh_token'' \<mapsto> utf16 ''r1'', ''theme'' \<mapsto> utf16 ''dark''], nextUrl = account_url,
              url = account_url\<lparr>searchParams := [(''page'', ''2'')]\<rparr>\<rparr> ''refresh_token''
   \<and> response (fst (middleware None (steady_endpoint (Reply 401 None))
        \<lparr>cookies = [''refresh_token'' \<mapsto> utf16 ''r1''], nextUrl = account_url, url = account_url\<rparr> 0)) =
     response (fst (middleware (Some ''https://api.example'') (steady_endpoint (Reply 401 None))
        \<lparr>cookies = [''refresh_token'' \<mapsto> utf16 ''r1'', ''theme'' \<mapsto> utf16 ''dark''], nextUrl = account_url,
          url = account_url\<lparr>searchParams := [(''page'', ''2'')]\<rparr>\<rparr> 7))"
proof -
  let ?out = "Reply 200 (Some (JObj [(utf16 ''access_token'', JStr (utf16 ''t2''))]))"
  let ?req = "\<lparr>cookies = [''refresh_token'' \<mapsto> utf16 ''r1''], nextUrl = account_url, url = account_url\<rparr>"
  let ?req' = "\<lparr>cookies = [''refresh_token'' \<mapsto> utf16 ''r1'', ''theme'' \<mapsto> utf16 ''dark''], nextUrl = account_url,
              url = account_url\<lparr>searchParams := [(''page'', ''2'')]\<rparr>\<rparr>"
  have always: "\<forall>call w'. fst (steady_endpoint ?out call w') = ?out"
    by (simp add: steady_endpoint_def)
  have world: "snd (middleware None (steady_endpoint ?out) ?req 0) = Suc 0"
    by (simp add: middleware_def cookies_get_def steady_endpoint_def refresh_try_def
      cookies_set_def encode_value_error_def throw_new_Error_def
        response_json_def response_ok_def)
  have twice: "response (fst (middleware None (steady_endpoint ?out) ?req (Suc 0))) =
      response (fst (middleware None (steady_endpoint ?out) ?req 0))"
    using guard_stateless [where fetch = "steady_endpoint ?out" and out = ?out and api_url = None
        and req = ?req and w = 0, THEN conjunct1] always world
    by simp
  have cA: "cookies ?req ''access_token'' = cookies ?req' ''access_token''" by simp
  have cR: "cookies ?req ''refresh_token'' = cookies ?req' ''refresh_token''" by simp
  have p: "pathname (nextUrl ?req) = pathname (nextUrl ?req')" by simp
  have g: "origin (url ?req) = origin (url ?req')" by simp
  have o: "fst (steady_endpoint (Reply 401 None) (refresh_call None (cookies_get ?req ''refresh_token'')) 0) =
      fst (steady_endpoint (Reply 401 None)
            (refresh_call (Some ''https://api.example'') (cookies_get ?req' ''refresh_token'')) 7)"
    by (simp add: steady_endpoint_def)
  have same: "response (fst (middleware None (steady_endpoint (Reply 401 None)) ?req 0)) =
      response (fst (middleware (Some ''https://api.example'') (steady_endpoint (Reply 401 None)) ?req' 7))"
    using guard_stateless [where ?r1.0 = ?req and ?r2.0 = ?req'
        and ?f1.0 = "steady_endpoint (Reply 401 None)" and ?f2.0 = "steady_endpoint (Reply 401 None)"
        and ?a1.0 = None and ?a2.0 = "Some ''https://api.example''" and ?w1.0 = 0 and ?w2.0 = 7,
        THEN conjunct2] cA cR p g o
    by blast
  from always world twice cA cR same show ?thesis by blast
qed

section \<open>Tokens are opaque\<close>

text \<open>
  C8, as stated, lets the value of the \<^verbatim>\<open>refresh_token\<close> cookie influence the run only
  by being forwarded in the renewal request, never by a branch on its content. The guard
  does branch on whether the value is empty: against one and the same endpoint, which
  answers every call alike, the request with the empty \<^verbatim>\<open>refresh_token\<close> cookie is
  redirected without any call, and the request with the cookie \<^verbatim>\<open>r1\<close> passes through
  with a new token.
\<close>

theorem empty_refresh_token_branches:
  "cookies \<lparr>cookies = [''refresh_token'' \<mapsto> []], nextUrl = account_url, url = account_url\<rparr>
       ''refresh_token'' = Some []
   \<and> response (fst (middleware (Some ''https://api.example'')
        (steady_endpoint (Reply 200 (Some (JObj [(utf16 ''access_token'', JStr (utf16 ''t2''))]))))
        \<lparr>cookies = [''refresh_token'' \<mapsto> []], nextUrl = account_url, url = account_url\<rparr> 0)) =
      \<lparr>kind = Redirect \<lparr>origin = ''https://blog.example'', pathname = ''/auth'',
                        searchParams = [(''next'', ''/account'')]\<rparr>,
       cookie_ops = []\<rparr>
   \<and> exchanges (fst (middleware (Some ''https://api.example'')
        (steady_endpoint (Reply 200 (Some (JObj [(utf16 ''access_token'', JStr (utf16 ''t2''))]))))
        \<lparr>cookies = [''refresh_token'' \<mapsto> []], nextUrl = account_url, url = account_url\<rparr> 0)) = []
   \<and> response (fst (middleware (Some ''https://api.example'')
        (steady_endpoint (Reply 200 (Some (JObj [(utf16 ''access_token'', JStr (utf16 ''t2''))]))))
        \<lparr>cookies = [''refresh_token'' \<mapsto> utf16 ''r1''], nextUrl = account_url, url = account_url\<rparr> 0)) =
      \<lparr>kind = Next, cookie_ops =
         [CookieSet ''access_token'' (JStr (utf16 ''t2'')) \<lparr>path = ''/'', secure = True, sameSite = Strict\<rparr>]\<rparr>"
  by (simp add: middleware_def cookies_get_def steady_endpoint_def refresh_try_def
      cookies_set_def encode_value_error_def throw_new_Error_def
      response_json_def response_ok_def NextResponse_next_def
      NextResponse_redirect_def login_url_eq account_url_def)

text \<open>
  C8, amended. The guard never inspects or decodes a token value beyond testing it for
  emptiness. Two runs whose inputs differ only in the non-empty value of the
  \<^verbatim>\<open>access_token\<close> cookie are identical. Two runs whose inputs differ only in the
  non-empty value of the \<^verbatim>\<open>refresh_token\<close> cookie give the same response whenever the
  endpoint answers the two renewal calls alike; and the value goes verbatim into the
  body of the one renewal call (made when the access token is not usable), under the
  key \<^verbatim>\<open>refresh_token\<close>.
\<close>

theorem tokens_opaque:
  "(cookies req ''access_token'' = Some a1 \<and> a1 \<noteq> [] \<and> a2 \<noteq> [] \<longrightarrow>
      middleware api_url fetch (req\<lparr>cookies := (cookies req)(''access_token'' \<mapsto> a2)\<rparr>) w =
      middleware api_url fetch req w)
   \<and> (cookies req ''refresh_token'' = Some t1 \<and> t1 \<noteq> [] \<and> t2 \<noteq> []
        \<and> fst (fetch (refresh_call api_url (JStr t2)) w) = fst (fetch (refresh_call api_url (JStr t1)) w) \<longrightarrow>
      response (fst (middleware api_url fetch (req\<lparr>cookies := (cookies req)(''refresh_token'' \<mapsto> t2)\<rparr>) w)) =
      response (fst (middleware api_url fetch req w)))
   \<and> (cookies req ''refresh_token'' = Some t1 \<and> t1 \<noteq> [] \<longrightarrow>
      map fst (exchanges (fst (middleware api_url fetch req w))) =
        (if truthy (cookies_get req ''access_token'') then []
         else [\<lparr>fetch_url = refresh_url api_url,
                fetch_method = ''POST'',
                fetch_headers = [(''Content-Type'', ''application/json'')],
                fetch_body = JObj [(utf16 ''refresh_token'', JStr t1)]\<rparr>]))"
proof (intro conjI impI)
  assume h: "cookies req ''access_token'' = Some a1 \<and> a1 \<noteq> [] \<and> a2 \<noteq> []"
  let ?req' = "req\<lparr>cookies := (cookies req)(''access_token'' \<mapsto> a2)\<rparr>"
  from h have "truthy (cookies_get req ''access_token'')" "truthy (cookies_get ?req' ''access_token'')"
    by (simp_all add: cookies_get_def)
  then show "middleware api_url fetch ?req' w = middleware api_url fetch req w"
    by (simp add: middleware_pass)
next
  assume h: "cookies req ''refresh_token'' = Some t1 \<and> t1 \<noteq> [] \<and> t2 \<noteq> []
        \<and> fst (fetch (refresh_call api_url (JStr t2)) w) = fst (fetch (refresh_call api_url (JStr t1)) w)"
  let ?req' = "req\<lparr>cookies := (cookies req)(''refresh_token'' \<mapsto> t2)\<rparr>"
  from h have R: "cookies_get req ''refresh_token'' = JStr t1" "cookies_get ?req' ''refresh_token'' = JStr t2"
    and A: "cookies_get ?req' ''access_token'' = cookies_get req ''access_token''"
    by (simp_all add: cookies_get_def)
  show "response (fst (middleware api_url fetch ?req' w)) = response (fst (middleware api_url fetch req w))"
  proof (cases "truthy (cookies_get req ''access_token'')")
    case True
    with A show ?thesis by (simp add: middleware_pass)
  next
    case False
    with A R h show ?thesis
      by (simp add: middleware_renew login_url_eq split: sum.splits)
  qed
next
  assume h: "cookies req ''refresh_token'' = Some t1 \<and> t1 \<noteq> []"
  then have R: "cookies_get req ''refresh_token'' = JStr t1"
    by (simp add: cookies_get_def)
  show "map fst (exchanges (fst (middleware api_url fetch req w))) =
        (if truthy (cookies_get req ''access_token'') then []
         else [\<lparr>fetch_url = refresh_url api_url,
                fetch_method = ''POST'',
                fetch_headers = [(''Content-Type'', ''application/json'')],
                fetch_body = JObj [(utf16 ''refresh_token'', JStr t1)]\<rparr>])"
  proof (cases "truthy (cookies_get req ''access_token'')")
    case True
    then show ?thesis by (simp add: middleware_pass)
  next
    case False
    with R h show ?thesis
      by (simp add: middleware_renew refresh_call_def)
  qed
qed

theorem tokens_opaque_witness:
  "cookies \<lparr>cookies = [''access_token'' \<mapsto> utf16 ''a1''], nextUrl = account_url, url = account_url\<rparr>
       ''access_token'' = Some (utf16 ''a1'')
   \<and> middleware None (steady_endpoint FetchThrows)
        \<lparr>cookies = [''access_token'' \<mapsto> utf16 ''other''], nextUrl = account_url, url = account_url\<rparr> 0 =
     middleware None (steady_endpoint FetchThrows)
        \<lparr>cookies = [''access_token'' \<mapsto> utf16 ''a1''], nextUrl = account_url, url = account_url\<rparr> 0
   \<and> cookies \<lparr>cookies = [''refresh_token'' \<mapsto> utf16 ''r1''], nextUrl = account_url, url = account_url\<rparr>
       ''refresh_token'' = Some (utf16 ''r1'')
   \<and> response (fst (middleware None (steady_endpoint (Reply 200 (Some (JObj [(utf16 ''access_token'', JStr (utf16 ''t2''))]))))
        \<lparr>cookies = [''refresh_token'' \<mapsto> utf16 ''r9''], nextUrl = account_url, url = account_url\<rparr> 0)) =
     response (fst (middleware None (steady_endpoint (Reply 200 (Some (JObj [(utf16 ''access_token'', JStr (utf16 ''t2''))]))))
        \<lparr>cookies = [''refresh_token'' \<mapsto> utf16 ''r1''], nextUrl = account_url, url = account_url\<rparr> 0))
   \<and> map fst (exchanges (fst (middleware None
        (steady_endpoint (Reply 200 (Some (JObj [(utf16 ''access_token'', JStr (utf16 ''t2''))]))))
        \<lparr>cookies = [''refresh_token'' \<mapsto> utf16 ''r1''], nextUrl = account_url, url = account_url\<rparr> 0))) =
     [\<lparr>fetch_url = ''undefined/auth/refresh'',
       fetch_method = ''POST'',
       fetch_headers = [(''Content-Type'', ''application/json'')],
       fetch_body = JObj [(utf16 ''refresh_token'', JStr (utf16 ''r1''))]\<rparr>]"
proof -
  let ?out = "Reply 200 (Some (JObj [(utf16 ''access_token'', JStr (utf16 ''t2''))]))"
  let ?acc = "\<lparr>cookies = [''access_token'' \<mapsto> utf16 ''a1''], nextUrl = account_url, url = account_url\<rparr>"
  let ?ref = "\<lparr>cookies = [''refresh_token'' \<mapsto> utf16 ''r1''], nextUrl = account_url, url = account_url\<rparr>"
  have hA: "cookies ?acc ''access_token'' = Some (utf16 ''a1'')" by simp
  have hR: "cookies ?ref ''refresh_token'' = Some (utf16 ''r1'')" by simp
  have updA: "?acc\<lparr>cookies := (cookies ?acc)(''access_token'' \<mapsto> utf16 ''other'')\<rparr> =
      \<lparr>cookies = [''access_token'' \<mapsto> utf16 ''other''], nextUrl = account_url, url = account_url\<rparr>"
    by simp
  have updR: "?ref\<lparr>cookies := (cookies ?ref)(''refresh_token'' \<mapsto> utf16 ''r9'')\<rparr> =
      \<lparr>cookies = [''refresh_token'' \<mapsto> utf16 ''r9''], nextUrl = account_url, url = account_url\<rparr>"
    by simp
  have o: "fst (steady_endpoint ?out (refresh_call None (JStr (utf16 ''r9''))) 0) =
      fst (steady_endpoint ?out (refresh_call None (JStr (utf16 ''r1''))) 0)"
    by (simp add: steady_endpoint_def)
  have nA: "\<not> truthy (cookies_get ?ref ''access_token'')"
    by (simp add: cookies_get_def)
  have c1: "middleware None (steady_endpoint FetchThrows)
        \<lparr>cookies = [''access_token'' \<mapsto> utf16 ''other''], nextUrl = account_url, url = account_url\<rparr> 0 =
     middleware None (steady_endpoint FetchThrows) ?acc 0"
    using tokens_opaque [where req = ?acc and ?a1.0 = "utf16 ''a1''" and ?a2.0 = "utf16 ''other''"
        and api_url = None and fetch = "steady_endpoint FetchThrows" and w = 0, THEN conjunct1] hA
    unfolding updA by simp
  have c2: "response (fst (middleware None (steady_endpoint ?out)
        \<lparr>cookies = [''refresh_token'' \<mapsto> utf16 ''r9''], nextUrl = account_url, url = account_url\<rparr> 0)) =
     response (fst (middleware None (steady_endpoint ?out) ?ref 0))"
    using tokens_opaque [where req = ?ref and ?t1.0 = "utf16 ''r1''" and ?t2.0 = "utf16 ''r9''"
        and api_url = None and fetch = "steady_endpoint ?out" and w = 0, THEN conjunct2, THEN conjunct1] hR o
    unfolding updR by simp
  have c3: "map fst (exchanges (fst (middleware None (steady_endpoint ?out) ?ref 0))) =
     [\<lparr>fetch_url = ''undefined/auth/refresh'',
       fetch_method = ''POST'',
       fetch_headers = [(''Content-Type'', ''application/json'')],
       fetch_body = JObj [(utf16 ''refresh_token'', JStr (utf16 ''r1''))]\<rparr>]"
    using tokens_opaque [where req = ?ref and ?t1.0 = "utf16 ''r1''"
        and api_url = None and fetch = "steady_endpoint ?out" and w = 0, THEN conjunct2, THEN conjunct2] hR nA
    by (simp add: refresh_url_def)
  from hA c1 hR c2 c3 show ?thesis by blast
qed

section \<open>Empty cookies\<close>



section \<open>A success reply without a token\<close>




end
